theory Spec2Isabelle
  imports Complex_Main
begin

section \<open>JavaScript strings and numbers used by the pages\<close>

text \<open>
  The pages are React components written in JavaScript.  Strings are modelled as
  \<^typ>\<open>string\<close>; the counters the pages keep (elapsed seconds, recording seconds) start at
  zero and are only ever incremented by one, so they are natural numbers.  On such values
  (far below \<open>2^53\<close>) the floating-point operations \<open>Math.floor(x / 60)\<close> and \<open>x % 60\<close>
  are exact and coincide with \<open>div\<close> and \<open>mod\<close>.
\<close>

definition digit_char :: "nat \<Rightarrow> char" where
  "digit_char d = ''0123456789'' ! d"

text \<open>\<open>Number.prototype.toString()\<close> on a non-negative integer: its decimal digits, most
  significant first, no leading zero, \<open>"0"\<close> for zero.\<close>

fun toString :: "nat \<Rightarrow> string" where
  "toString n = (if n < 10 then [digit_char n] else toString (n div 10) @ [digit_char (n mod 10)])"

declare toString.simps [simp del]





subsection \<open>formatTime (InterviewPage.jsx and VoiceInterviewPage.jsx)\<close>



text \<open>\<open>String.prototype.trim()\<close> removes white space and line terminators at both ends.
  Within the byte model of \<^typ>\<open>char\<close> these are tab, line feed, vertical tab, form feed,
  carriage return and space.\<close>

definition is_white_space :: "char \<Rightarrow> bool" where
  "is_white_space c = ((of_char c :: nat) \<in> {9, 10, 11, 12, 13, 32})"

definition trim :: "string \<Rightarrow> string" where
  "trim str = rev (dropWhile is_white_space (rev (dropWhile is_white_space str)))"

text \<open>Truthiness of an optional string property: \<open>undefined\<close>, \<open>null\<close> and \<open>""\<close> are falsy.
  \<open>truthy v\<close> is the string when it is truthy.\<close>

definition truthy :: "string option \<Rightarrow> string option" where
  "truthy v = (case v of None \<Rightarrow> None | Some t \<Rightarrow> if t = [] then None else Some t)"

section \<open>InterviewPage.jsx: the text and recorded-answer interview\<close>

subsection \<open>Component state\<close>

record chat_message =
  sender :: string
  text' :: string

text \<open>The \<open>useState\<close> cells that the two handlers and the transcription effect read or write,
  together with the values the page reads from the \<open>useAudioRecorder\<close> hook (\<open>isRecording\<close>,
  \<open>audioBlob\<close>).  The blob is opaque to the page.  The cells \<open>currentQuestion\<close>,
  \<open>questionNumber\<close> and \<open>isComplete\<close>, which the page never sets, and the interview clock are
  left out.  \<open>recordingDuration\<close> is set to zero when a recording starts and counts the
  seconds of the recording.\<close>

record page =
  messages :: "chat_message list"
  input :: string
  sessionId :: "string option"
  currentQuestionNumber :: int
  loading :: bool
  error :: "string option"
  interviewEnded :: bool
  isRecording :: bool
  audioBlob :: "string option"
  isTranscribing :: bool
  recordingDuration :: nat

text \<open>What a handler does to the world outside the component state, in the order it does it.\<close>

datatype effect =
    Alert string
  | SubmitAnswer "string option" int string
  | SpeakText string
  | ConsoleError string

text \<open>The body of a successful \<open>submitAnswer\<close> response, with the properties the page reads
  (\<open>nextQuestionNumber\<close> is read only next to a \<open>nextQuestion\<close>).  A rejected promise is the
  left injection of the result.\<close>

record response =
  nextQuestion :: "string option"
  nextQuestionNumber :: int
  closingMessage :: "string option"
  message :: "string option"

datatype exn = Exn string

subsection \<open>handleStopRecording\<close>

text \<open>
  \<^verbatim>\<open>const MIN_RECORDING_DURATION = 4;
  const handleStopRecording = () => {
    if (recordingDuration < MIN_RECORDING_DURATION) {
      alert(`Please record for at least ${MIN_RECORDING_DURATION} seconds. Current: ${recordingDuration}s`);
      return;
    }
    stopRecording();
  };\<close>
  \<open>stopRecording\<close> belongs to the \<open>useAudioRecorder\<close> hook; the handler receives it as a
  parameter acting on the state.  The alert is the page's \<open>AnswerTooShort\<close> rejection.
\<close>

definition MIN_RECORDING_DURATION :: nat where
  "MIN_RECORDING_DURATION = 4"

definition AnswerTooShort :: "nat \<Rightarrow> effect" where
  "AnswerTooShort duration =
     Alert (''Please record for at least '' @ toString MIN_RECORDING_DURATION
            @ '' seconds. Current: '' @ toString duration @ ''s'')"

definition handleStopRecording :: "(page \<Rightarrow> page) \<Rightarrow> page \<Rightarrow> page \<times> effect list" where
  "handleStopRecording stopRecording s =
     (if recordingDuration s < MIN_RECORDING_DURATION
      then (s, [AnswerTooShort (recordingDuration s)])
      else (stopRecording s, []))"

text \<open>The effect hook that starts transcription:
  \<^verbatim>\<open>if (audioBlob && !isRecording) { transcribeAudio(audioBlob); }\<close>\<close>

definition transcription_due :: "page \<Rightarrow> bool" where
  "transcription_due s = (audioBlob s \<noteq> None \<and> \<not> isRecording s)"

subsection \<open>handleSend\<close>

text \<open>
  \<^verbatim>\<open>const handleSend = async () => {
    if (!input.trim() || loading || interviewEnded) return;
    const userAnswer = input.trim();
    setInput("");
    setMessages((prev) => [...prev, { sender: "user", text: userAnswer }]);
    setLoading(true);
    try {
      const response = await submitAnswer(sessionId, currentQuestionNumber, userAnswer);
      if (response.nextQuestion) {
        setMessages((prev) => [...prev, { sender: "ai", text: response.nextQuestion }]);
        await speakText(response.nextQuestion);
        setCurrentQuestionNumber(response.nextQuestionNumber);
      } else {
        const finalMsg = response.closingMessage || response.message ||
          "Thank you! The interview has been completed.";
        setMessages((prev) => [...prev, { sender: "ai", text: finalMsg }]);
        await speakText(finalMsg);
        setInterviewEnded(true);
      }
    } catch (err) {
      console.error("Submit answer error:", err);
      setMessages((prev) => [...prev, { sender: "ai", text: "Sorry, ..." }]);
      await speakText("Sorry, ...");
    } finally {
      setLoading(false);
    }
  };\<close>
  \<open>submitAnswer\<close> is the API call; it is a parameter, returning the response or the
  exception.  The handler's result is the state once the promise has settled.
\<close>

definition user_message :: "string \<Rightarrow> chat_message" where
  "user_message t = \<lparr>sender = ''user'', text' = t\<rparr>"

definition ai_message :: "string \<Rightarrow> chat_message" where
  "ai_message t = \<lparr>sender = ''ai'', text' = t\<rparr>"

definition apology :: string where
  "apology = ''Sorry, there was an error processing your answer. Please try again.''"

definition default_closing :: string where
  "default_closing = ''Thank you! The interview has been completed.''"

definition finalMsg :: "response \<Rightarrow> string" where
  "finalMsg r =
     (case truthy (closingMessage r) of
        Some m \<Rightarrow> m
      | None \<Rightarrow> (case truthy (message r) of Some m \<Rightarrow> m | None \<Rightarrow> default_closing))"

definition send_blocked :: "page \<Rightarrow> bool" where
  "send_blocked s = (trim (input s) = [] \<or> loading s \<or> interviewEnded s)"

definition handleSend ::
  "(string option \<Rightarrow> int \<Rightarrow> string \<Rightarrow> exn + response) \<Rightarrow> page \<Rightarrow> page \<times> effect list" where
  "handleSend submitAnswer s =
     (if send_blocked s then (s, [])
      else
        let userAnswer = trim (input s);
            s1 = s\<lparr>input := [], messages := messages s @ [user_message userAnswer],
                   loading := True\<rparr>;
            request = SubmitAnswer (sessionId s) (currentQuestionNumber s) userAnswer
        in case submitAnswer (sessionId s) (currentQuestionNumber s) userAnswer of
             Inr r \<Rightarrow>
               (case truthy (nextQuestion r) of
                  Some question \<Rightarrow>
                    (s1\<lparr>messages := messages s1 @ [ai_message question],
                        currentQuestionNumber := nextQuestionNumber r,
                        loading := False\<rparr>,
                     [request, SpeakText question])
                | None \<Rightarrow>
                    (s1\<lparr>messages := messages s1 @ [ai_message (finalMsg r)],
                        interviewEnded := True,
                        loading := False\<rparr>,
                     [request, SpeakText (finalMsg r)]))
           | Inl (Exn err) \<Rightarrow>
               (s1\<lparr>messages := messages s1 @ [ai_message apology], loading := False\<rparr>,
                [request, ConsoleError err, SpeakText apology]))"

section \<open>Analytics.jsx and the results page: scores\<close>

text \<open>
  An interview result as the pages read it: \<open>assessment\<close> may be missing, and so may its
  \<open>candidate_score_percent\<close>.  The score is a number; the pages compare it with thresholds and
  print it followed by a percent sign.  It is modelled as an integer.
\<close>

record assessment =
  candidate_score_percent :: "int option"
  summary :: "string option"
  strengths :: "string list option"
  weaknesses :: "string list option"

record interview_result =
  assessment :: "assessment option"

text \<open>\<open>r.assessment?.candidate_score_percent || 0\<close> and, on the results page,
  \<open>(result.assessment || {}).candidate_score_percent || 0\<close>: a missing assessment, a missing
  score and the falsy score \<open>0\<close> all give \<open>0\<close>.\<close>

definition score_or_zero :: "interview_result \<Rightarrow> int" where
  "score_or_zero r =
     (case assessment r of
        None \<Rightarrow> 0
      | Some a \<Rightarrow> (case candidate_score_percent a of
                     None \<Rightarrow> 0
                   | Some n \<Rightarrow> if n = 0 then 0 else n))"



subsection \<open>calculateStats\<close>




subsection \<open>InterviewResults: the score shown for one session\<close>

text \<open>
  \<^verbatim>\<open>const getScoreLabel = (score) => {
    if (score >= 80) return 'Excellent';
    if (score >= 60) return 'Good';
    if (score >= 40) return 'Fair';
    return 'Needs Improvement';
  };\<close>
\<close>

definition getScoreLabel :: "int \<Rightarrow> string" where
  "getScoreLabel score =
     (if score \<ge> 80 then ''Excellent''
      else if score \<ge> 60 then ''Good''
      else if score \<ge> 40 then ''Fair''
      else ''Needs Improvement'')"

definition getScoreColor :: "int \<Rightarrow> string" where
  "getScoreColor score =
     (if score \<ge> 80 then ''from-green-500 to-cyan-500''
      else if score \<ge> 60 then ''from-cyan-500 to-blue-500''
      else if score \<ge> 40 then ''from-yellow-500 to-orange-500''
      else ''from-red-500 to-pink-500'')"

text \<open>What the component returns: the spinner while loading, the error panel when the fetch
  failed or gave nothing, otherwise the score circle (gradient, percentage, label).
  \<^verbatim>\<open>if (loading) return <spinner/>;
  if (error || !result) return <panel>{error || 'Results not found'}</panel>;
  const assessment = result.assessment || {};
  const score = assessment.candidate_score_percent || 0;\<close>\<close>

datatype results_view =
    LoadingView
  | ErrorPanel string
  | ScoreCircle string int string

definition InterviewResults :: "bool \<Rightarrow> string \<Rightarrow> interview_result option \<Rightarrow> results_view" where
  "InterviewResults is_loading err result =
     (if is_loading then LoadingView
      else case (err \<noteq> [], result) of
             (True, _) \<Rightarrow> ErrorPanel err
           | (False, None) \<Rightarrow> ErrorPanel ''Results not found''
           | (False, Some r) \<Rightarrow>
               let score = score_or_zero r
               in ScoreCircle (getScoreColor score) score (getScoreLabel score))"

section \<open>VoiceInterviewPage.jsx: what the page shows\<close>

text \<open>
  The page reads \<open>error\<close>, \<open>isComplete\<close> and \<open>assessment\<close> from the \<open>useVoiceInterview\<close> hook
  and returns, in this order: the spinner while initializing, the connection-error panel when
  \<open>error\<close> is set, the completion panel when \<open>isComplete\<close>, otherwise the live interview.
  \<^verbatim>\<open>useEffect(() => {
    if (isComplete && assessment) { setTimeout(() => { navigate('/results'); }, 5000); }
  }, [isComplete, assessment, navigate]);\<close>
\<close>

record voice_hook =
  hook_error :: "string option"
  isComplete :: bool
  hook_assessment :: "assessment option"

datatype voice_view =
    Initializing
  | ConnectionError string
  | InterviewComplete "assessment option"
  | LiveInterview

definition VoiceInterviewPage :: "bool \<Rightarrow> voice_hook \<Rightarrow> voice_view" where
  "VoiceInterviewPage isInitializing h =
     (if isInitializing then Initializing
      else case truthy (hook_error h) of
             Some e \<Rightarrow> ConnectionError e
           | None \<Rightarrow> if isComplete h then InterviewComplete (hook_assessment h)
                     else LiveInterview)"

definition redirect_scheduled :: "voice_hook \<Rightarrow> bool" where
  "redirect_scheduled h = (isComplete h \<and> hook_assessment h \<noteq> None)"

section \<open>The session orchestrator of the specification\<close>

text \<open>
  The pages talk to a server through \<open>submitAnswer\<close> and through the web socket of
  \<open>useVoiceInterview\<close>.  That server side (the turn-taking state machine that numbers the
  questions, bounds their count and finalizes the session, and the audio ingestion buffer) is
  not among the source files; it is modelled here from the specification, sections 3 and 4.
\<close>

subsection \<open>Turn-taking state machine\<close>

text \<open>Modelled from the spec: the eight states of the table in section 4.3; the state machine
  is missing from the sources.\<close>

datatype session_state =
    Idle | Priming | AskingQuestion | ListeningForAnswer | EvaluatingAnswer
  | Closing | Completed | Failed

text \<open>Modelled from the spec: the two fields of the session's \<open>config\<close> (section 3) that
  transitions depend on; the session record is missing from the sources.  The idle timeout
  and the end-pointing silence are clock matters and reach the machine as events.\<close>

record config =
  minAnswerSeconds :: nat
  maxQuestions :: nat

text \<open>Modelled from the spec: a QAExchange of section 3, one question with its answer; the
  exchange log is missing from the sources.\<close>

record qa_exchange =
  questionText :: string
  answerText :: string

text \<open>Modelled from the spec: the Session of section 3, owned by the state-machine actor,
  which is missing from the sources.  \<open>questionIndex\<close> is the number of the question last
  emitted (none yet: 0; the first question is number 1, as the page's
  \<open>setCurrentQuestionNumber(1)\<close>).  The log is append-only.\<close>

record session =
  state :: session_state
  questionIndex :: nat
  config :: config
  pendingQuestion :: string
  pendingAnswer :: string
  exchangeLog :: "qa_exchange list"

text \<open>Modelled from the spec: the events serialized into the actor's inbox (section 4.3 and
  section 5) and the outbound events of the connection boundary (section 6:
  \<open>question\<close>, \<open>status\<close>, \<open>assessment\<close>, \<open>error\<close>); the inbox is missing from the sources.\<close>

datatype event =
    Start
  | ContextLoaded string
  | ContextError string
  | QuestionAcked
  | StopRecording nat string
  | AnswerEvaluated string
  | EndInterview
  | IdleTimeout
  | TranscriptionExhausted string
  | AssessmentReady string
  | FinalizerError string

datatype out_event =
    Question nat string
  | Status string
  | Assessment string
  | Error string

text \<open>Modelled from the spec: a session as the registry creates it (section 4.6), \<open>Idle\<close> with
  no question asked and an empty log; the registry is missing from the sources.\<close>

definition new_session :: "config \<Rightarrow> session" where
  "new_session cfg = \<lparr>state = Idle, questionIndex = 0, config = cfg, pendingQuestion = [],
                       pendingAnswer = [], exchangeLog = []\<rparr>"

text \<open>Modelled from the spec: the two terminal states of section 4.3.\<close>

definition terminal :: "session_state \<Rightarrow> bool" where
  "terminal st = (st = Completed \<or> st = Failed)"

text \<open>Modelled from the spec: the transition table of section 4.3, which is missing from the
  sources.  Row by row: \<open>Idle\<close> goes to \<open>Priming\<close>; \<open>Priming\<close> to \<open>AskingQuestion\<close> on success
  and to \<open>Failed\<close> on a collaborator error; \<open>AskingQuestion\<close> to \<open>ListeningForAnswer\<close>;
  \<open>ListeningForAnswer\<close> to \<open>EvaluatingAnswer\<close> on a finalized utterance of at least
  \<open>minAnswerSeconds\<close>, to itself on \<open>AnswerTooShort\<close>; \<open>EvaluatingAnswer\<close> to
  \<open>AskingQuestion\<close> with \<open>questionIndex + 1\<close> if under \<open>maxQuestions\<close> and to \<open>Closing\<close>
  otherwise; \<open>Closing\<close> to \<open>Completed\<close> on success and to \<open>Failed\<close> on an unrecoverable
  finalizer error.  An end command (from the client or, ending the interview early, from the
  policy engine) or the idle timeout is honoured from any state that is neither terminal nor
  already closing (section 5).  Any other event is discarded.\<close>

fun step :: "session \<Rightarrow> event \<Rightarrow> session \<times> out_event list" where
  "step s Start =
     (if state s = Idle then (s\<lparr>state := Priming\<rparr>, [Status ''priming'']) else (s, []))"
| "step s (ContextLoaded q) =
     (if state s = Priming
      then (s\<lparr>state := AskingQuestion, questionIndex := questionIndex s + 1,
               pendingQuestion := q\<rparr>,
            [Question (questionIndex s + 1) q])
      else (s, []))"
| "step s (ContextError e) =
     (if state s = Priming then (s\<lparr>state := Failed\<rparr>, [Error e]) else (s, []))"
| "step s QuestionAcked =
     (if state s = AskingQuestion
      then (s\<lparr>state := ListeningForAnswer\<rparr>, [Status ''listening''])
      else (s, []))"
| "step s (StopRecording elapsed answer) =
     (if state s = ListeningForAnswer
      then if elapsed < minAnswerSeconds (config s)
           then (s, [Status ''AnswerTooShort''])
           else (s\<lparr>state := EvaluatingAnswer, pendingAnswer := answer\<rparr>,
                 [Status ''evaluating''])
      else (s, []))"
| "step s (AnswerEvaluated q) =
     (if state s = EvaluatingAnswer
      then let logged = s\<lparr>exchangeLog := exchangeLog s @
                            [\<lparr>questionText = pendingQuestion s,
                              answerText = pendingAnswer s\<rparr>]\<rparr>
           in if questionIndex s < maxQuestions (config s)
              then (logged\<lparr>state := AskingQuestion, questionIndex := questionIndex s + 1,
                           pendingQuestion := q\<rparr>,
                    [Question (questionIndex s + 1) q])
              else (logged\<lparr>state := Closing\<rparr>, [Status ''closing''])
      else (s, []))"
| "step s EndInterview =
     (if terminal (state s) \<or> state s = Closing then (s, [])
      else (s\<lparr>state := Closing\<rparr>, [Status ''closing'']))"
| "step s IdleTimeout =
     (if terminal (state s) \<or> state s = Closing then (s, [])
      else (s\<lparr>state := Closing\<rparr>, [Status ''closing'']))"
| "step s (TranscriptionExhausted e) =
     (if state s = ListeningForAnswer then (s\<lparr>state := Failed\<rparr>, [Error e]) else (s, []))"
| "step s (AssessmentReady a) =
     (if state s = Closing then (s\<lparr>state := Completed\<rparr>, [Assessment a]) else (s, []))"
| "step s (FinalizerError e) =
     (if state s = Closing then (s\<lparr>state := Failed\<rparr>, [Error e]) else (s, []))"

text \<open>Modelled from the spec: the actor evaluates the events of its inbox one at a time
  (section 4.3); the run collects what it emits, in order.\<close>

fun run :: "session \<Rightarrow> event list \<Rightarrow> session \<times> out_event list" where
  "run s [] = (s, [])"
| "run s (e # es) =
     (case step s e of (s', outs) \<Rightarrow> (case run s' es of (s'', outs') \<Rightarrow> (s'', outs @ outs')))"

text \<open>Modelled from the spec: the \<open>questionIndex\<close> values of the emitted \<open>question\<close> events,
  and the emitted \<open>assessment\<close> and \<open>error\<close> events (sections 6 and 8), in the order of
  emission.\<close>

fun question_indices :: "out_event list \<Rightarrow> nat list" where
  "question_indices [] = []"
| "question_indices (Question i q # outs) = i # question_indices outs"
| "question_indices (_ # outs) = question_indices outs"

fun assessments :: "out_event list \<Rightarrow> string list" where
  "assessments [] = []"
| "assessments (Assessment a # outs) = a # assessments outs"
| "assessments (_ # outs) = assessments outs"

fun errors :: "out_event list \<Rightarrow> string list" where
  "errors [] = []"
| "errors (Error e # outs) = e # errors outs"
| "errors (_ # outs) = errors outs"

subsection \<open>Audio ingestion buffer\<close>

text \<open>Modelled from the spec: the Audio Ingestion Buffer of section 4.1, which is missing from
  the sources.  It keeps, per session, the sequence number it expects next (0 before the first
  chunk) and forwards the bytes of every accepted chunk to the transcription stream at once;
  there is no reordering buffer.\<close>

datatype ingest_error = OutOfOrder

record ingestion =
  expected :: "string \<rightharpoonup> nat"
  forwarded :: "(string \<times> char list) list"

text \<open>Modelled from the spec: the expected next sequence value of a session (section 4.1).\<close>

definition expected_next :: "ingestion \<Rightarrow> string \<Rightarrow> nat" where
  "expected_next b sid = (case expected b sid of None \<Rightarrow> 0 | Some n \<Rightarrow> n)"

text \<open>Modelled from the spec: \<open>submit(sessionId, seq, bytes)\<close> of section 4.1, which is missing
  from the sources.  It fails with \<open>OutOfOrder\<close> if \<open>seq\<close> is not the expected next value, and
  then the buffer stays as it is; otherwise the bytes are forwarded and the next value is
  expected.  The result is the error, if any, and the buffer after the call.\<close>

definition submit ::
  "ingestion \<Rightarrow> string \<Rightarrow> nat \<Rightarrow> char list \<Rightarrow> ingest_error option \<times> ingestion" where
  "submit b sid seq bytes =
     (if seq \<noteq> expected_next b sid then (Some OutOfOrder, b)
      else (None, b\<lparr>expected := (expected b)(sid \<mapsto> seq + 1),
                    forwarded := forwarded b @ [(sid, bytes)]\<rparr>))"

section \<open>Auxiliary definitions for the statements\<close>

text \<open>A state of the interview page used to run the handlers on: the greeting and the first
  question are on screen, an answer is typed, and the microphone has been recording for two
  seconds.\<close>

definition page_example :: page where
  "page_example =
     \<lparr>messages = [ai_message ''Hello'', ai_message ''Tell me about yourself.''],
      input = '' I build compilers. '', sessionId = Some ''s-1'', currentQuestionNumber = 1,
      loading = False, error = None, interviewEnded = False, isRecording = True,
      audioBlob = None, isTranscribing = False, recordingDuration = 2\<rparr>"

text \<open>Three servers for \<open>submitAnswer\<close>: one whose call fails (the promise is rejected)
  whatever is sent, one that answers with the next question, and one that answers with a
  closing message.\<close>

definition failing_server :: "string option \<Rightarrow> int \<Rightarrow> string \<Rightarrow> exn + response" where
  "failing_server sid n answer = Inl (Exn ''timeout exceeded'')"

definition asking_server :: "string option \<Rightarrow> int \<Rightarrow> string \<Rightarrow> exn + response" where
  "asking_server sid n answer =
     Inr \<lparr>nextQuestion = Some ''Why compilers?'', nextQuestionNumber = n + 1,
          closingMessage = None, message = None\<rparr>"


text \<open>Requests among the effects of a handler, and spoken texts other than the apology.\<close>

fun is_request :: "effect \<Rightarrow> bool" where
  "is_request (SubmitAnswer sid n a) = True"
| "is_request _ = False"

fun is_spoken_question :: "effect \<Rightarrow> bool" where
  "is_spoken_question (SpeakText t) = (t \<noteq> apology)"
| "is_spoken_question _ = False"


definition unscored :: interview_result where
  "unscored = \<lparr>assessment = Some \<lparr>candidate_score_percent = None, summary = None,
                                  strengths = None, weaknesses = None\<rparr>\<rparr>"

definition unassessed :: interview_result where
  "unassessed = \<lparr>assessment = None\<rparr>"


text \<open>A session of two questions, the inbox of one complete interview (with a recording that
  is too short and two events that arrive after the end), a session whose first answer is
  being evaluated, and an ingestion buffer that has accepted chunks 0 to 2 of one session.\<close>

definition config_example :: config where
  "config_example = \<lparr>minAnswerSeconds = 4, maxQuestions = 2\<rparr>"

definition events_example :: "event list" where
  "events_example =
     [Start, ContextLoaded ''q1'', QuestionAcked, StopRecording 2 ''too short'',
      StopRecording 5 ''a1'', AnswerEvaluated ''q2'', QuestionAcked, StopRecording 6 ''a2'',
      AnswerEvaluated ''q3'', AssessmentReady ''good'', FinalizerError ''late'',
      AssessmentReady ''again'']"


definition ingestion_example :: ingestion where
  "ingestion_example =
     \<lparr>expected = [''s-1'' \<mapsto> 3],
      forwarded = [(''s-1'', ''a''), (''s-1'', ''b''), (''s-1'', ''c'')]\<rparr>"

section \<open>Decimal digits and the clock\<close>







lemma toString_2: "toString 2 = ''2''"
  by (subst toString.simps) (simp add: digit_char_def)

lemma toString_4: "toString 4 = ''4''"
  by (subst toString.simps) (simp add: digit_char_def)










section \<open>The interview page\<close>

lemma trim_example: "trim '' I build compilers. '' = ''I build compilers.''"
  by (simp add: trim_def is_white_space_def)

text \<open>
  Claim C1.  When the stop button is pressed while the recording has lasted fewer than
  \<open>MIN_RECORDING_DURATION\<close> (4) seconds, the stop is rejected with the \<open>AnswerTooShort\<close>
  alert and \<open>stopRecording\<close> is not called: the whole component state is as before, so the
  question number, the messages and the input are unchanged, the recording goes on, and no
  transcription (hence no answer text) is started by the rejected stop.
\<close>

theorem short_recording_rejected:
  assumes "recordingDuration s < MIN_RECORDING_DURATION"
  shows "MIN_RECORDING_DURATION = 4
       \<and> handleStopRecording stopRecording s = (s, [AnswerTooShort (recordingDuration s)])
       \<and> currentQuestionNumber (fst (handleStopRecording stopRecording s)) = currentQuestionNumber s
       \<and> messages (fst (handleStopRecording stopRecording s)) = messages s
       \<and> input (fst (handleStopRecording stopRecording s)) = input s
       \<and> isRecording (fst (handleStopRecording stopRecording s)) = isRecording s
       \<and> transcription_due (fst (handleStopRecording stopRecording s)) = transcription_due s"
  using assms by (simp add: handleStopRecording_def MIN_RECORDING_DURATION_def)

theorem short_recording_rejected_witness:
  "recordingDuration page_example < MIN_RECORDING_DURATION
   \<and> handleStopRecording (\<lambda>p. p\<lparr>isRecording := False, audioBlob := Some ''blob''\<rparr>) page_example
       = (page_example, [Alert ''Please record for at least 4 seconds. Current: 2s''])
   \<and> \<not> transcription_due (fst (handleStopRecording (\<lambda>p. p\<lparr>isRecording := False, audioBlob := Some ''blob''\<rparr>) page_example))"
proof -
  let ?stop = "\<lambda>p. p\<lparr>isRecording := False, audioBlob := Some ''blob''\<rparr>"
  have short: "recordingDuration page_example < MIN_RECORDING_DURATION"
    by (simp add: page_example_def MIN_RECORDING_DURATION_def)
  have dur: "recordingDuration page_example = 2"
    by (simp add: page_example_def)
  have alert: "AnswerTooShort 2 = Alert ''Please record for at least 4 seconds. Current: 2s''"
    by (simp add: AnswerTooShort_def MIN_RECORDING_DURATION_def toString_2 toString_4)
  have idle: "\<not> transcription_due page_example"
    by (simp add: transcription_due_def page_example_def)
  from short_recording_rejected [OF short, of ?stop]
  have "handleStopRecording ?stop page_example = (page_example, [AnswerTooShort 2])"
    by (simp add: dur)
  with short alert idle show ?thesis by simp
qed

text \<open>
  Claim C7.  A send that does not apply to the current state of the page is dropped: when the
  interview has ended, or a request is still in flight, or the input is blank, \<open>handleSend\<close>
  returns the state it was given and does nothing else.  No message is appended, no answer is
  sent to the server, and the question number is unchanged.
\<close>

theorem blocked_send_changes_nothing:
  assumes "interviewEnded s \<or> loading s \<or> trim (input s) = []"
  shows "handleSend submitAnswer s = (s, [])"
  using assms by (auto simp: handleSend_def send_blocked_def)

theorem blocked_send_changes_nothing_witness:
  "interviewEnded (page_example\<lparr>interviewEnded := True\<rparr>)
   \<and> handleSend failing_server (page_example\<lparr>interviewEnded := True\<rparr>)
       = (page_example\<lparr>interviewEnded := True\<rparr>, [])"
  using blocked_send_changes_nothing [of "page_example\<lparr>interviewEnded := True\<rparr>" failing_server]
  by simp

text \<open>
  Claim C4, as the code has it.  When the request for the next question fails, the page does
  not send it again and no question takes its place: the answer and one apology are appended
  to the messages, the apology is spoken, exactly one request has been made, and the question
  number stays where it was.  The failure does not end the interview: \<open>interviewEnded\<close> is
  false afterwards, the page's \<open>error\<close> is untouched and \<open>loading\<close> is cleared, so the
  candidate can answer the same question again.
\<close>

theorem failed_request_apology:
  assumes "\<not> send_blocked s"
    and "submitAnswer (sessionId s) (currentQuestionNumber s) (trim (input s)) = Inl (Exn err)"
  shows "handleSend submitAnswer s =
           (s\<lparr>input := [],
              messages := messages s @ [user_message (trim (input s)), ai_message apology],
              loading := False\<rparr>,
            [SubmitAnswer (sessionId s) (currentQuestionNumber s) (trim (input s)),
             ConsoleError err, SpeakText apology])
       \<and> currentQuestionNumber (fst (handleSend submitAnswer s)) = currentQuestionNumber s
       \<and> interviewEnded (fst (handleSend submitAnswer s)) = False
       \<and> error (fst (handleSend submitAnswer s)) = error s
       \<and> loading (fst (handleSend submitAnswer s)) = False
       \<and> length (filter is_request (snd (handleSend submitAnswer s))) = 1
       \<and> filter is_spoken_question (snd (handleSend submitAnswer s)) = []"
  using assms by (simp add: handleSend_def send_blocked_def Let_def)

theorem failed_request_apology_witness:
  "\<not> send_blocked page_example
   \<and> failing_server (sessionId page_example) (currentQuestionNumber page_example)
        (trim (input page_example)) = Inl (Exn ''timeout exceeded'')
   \<and> handleSend failing_server page_example =
        (page_example\<lparr>input := [],
           messages := [ai_message ''Hello'', ai_message ''Tell me about yourself.'',
                        user_message ''I build compilers.'', ai_message apology],
           loading := False\<rparr>,
         [SubmitAnswer (Some ''s-1'') 1 ''I build compilers.'',
          ConsoleError ''timeout exceeded'', SpeakText apology])"
proof -
  have free: "\<not> send_blocked page_example"
    by (simp add: send_blocked_def page_example_def trim_example)
  have fails: "failing_server (sessionId page_example) (currentQuestionNumber page_example)
        (trim (input page_example)) = Inl (Exn ''timeout exceeded'')"
    by (simp add: failing_server_def)
  from failed_request_apology [of page_example failing_server "''timeout exceeded''", OF free fails]
       free fails
  show ?thesis by (simp add: page_example_def trim_example)
qed

text \<open>
  The claim as the specification states it (one automatic retry, then a fallback question and
  the next question number) fails at the example page when the request is rejected: one request
  is made, not two; nothing but the apology is spoken; the question number is still 1, not 2.
\<close>

theorem failed_request_counterexample:
  "length (filter is_request (snd (handleSend failing_server page_example))) \<noteq> 2
   \<and> filter is_spoken_question (snd (handleSend failing_server page_example)) = []
   \<and> last (messages (fst (handleSend failing_server page_example))) = ai_message apology
   \<and> currentQuestionNumber (fst (handleSend failing_server page_example))
       \<noteq> currentQuestionNumber page_example + 1"
  by (simp add: handleSend_def send_blocked_def page_example_def failing_server_def
        trim_example Let_def)

text \<open>What the page does with a response: it takes the number of the next question from the
  response as it is, or ends the interview when the response has no next question.\<close>

lemma handleSend_next_question:
  assumes "\<not> send_blocked p"
    and "submitAnswer (sessionId p) (currentQuestionNumber p) (trim (input p)) = Inr r"
    and "truthy (nextQuestion r) = Some q"
  shows "handleSend submitAnswer p =
           (p\<lparr>input := [],
              messages := messages p @ [user_message (trim (input p)), ai_message q],
              currentQuestionNumber := nextQuestionNumber r,
              loading := False\<rparr>,
            [SubmitAnswer (sessionId p) (currentQuestionNumber p) (trim (input p)), SpeakText q])"
  using assms by (simp add: handleSend_def Let_def)


lemma page_example_free: "\<not> send_blocked page_example"
  by (simp add: send_blocked_def page_example_def trim_example)

section \<open>Scores\<close>









text \<open>
  Claim C10.  A result without an assessment, or whose assessment has no
  \<open>candidate_score_percent\<close>, is shown with the score 0 and the label \<open>Needs Improvement\<close>.
  \<open>getScoreLabel\<close> gives every score exactly one of four labels: \<open>Excellent\<close> from 80,
  \<open>Good\<close> from 60 below 80, \<open>Fair\<close> from 40 below 60, \<open>Needs Improvement\<close> below 40.
\<close>

theorem missing_score_and_labels:
  "((assessment r = None \<or> (\<exists>a. assessment r = Some a \<and> candidate_score_percent a = None)) \<longrightarrow>
       InterviewResults False [] (Some r) = ScoreCircle (getScoreColor 0) 0 ''Needs Improvement'')
   \<and> (getScoreLabel score = ''Excellent'' \<longleftrightarrow> 80 \<le> score)
   \<and> (getScoreLabel score = ''Good'' \<longleftrightarrow> 60 \<le> score \<and> score < 80)
   \<and> (getScoreLabel score = ''Fair'' \<longleftrightarrow> 40 \<le> score \<and> score < 60)
   \<and> (getScoreLabel score = ''Needs Improvement'' \<longleftrightarrow> score < 40)
   \<and> getScoreLabel score \<in> {''Excellent'', ''Good'', ''Fair'', ''Needs Improvement''}"
proof -
  have shown: "InterviewResults False [] (Some r) = ScoreCircle (getScoreColor 0) 0 ''Needs Improvement''"
    if "score_or_zero r = 0"
    using that by (simp add: InterviewResults_def getScoreLabel_def)
  have missing: "score_or_zero r = 0"
    if "assessment r = None \<or> (\<exists>a. assessment r = Some a \<and> candidate_score_percent a = None)"
    using that by (auto simp: score_or_zero_def)
  have labels:
    "getScoreLabel score = ''Excellent'' \<longleftrightarrow> 80 \<le> score"
    "getScoreLabel score = ''Good'' \<longleftrightarrow> 60 \<le> score \<and> score < 80"
    "getScoreLabel score = ''Fair'' \<longleftrightarrow> 40 \<le> score \<and> score < 60"
    "getScoreLabel score = ''Needs Improvement'' \<longleftrightarrow> score < 40"
    by (simp_all add: getScoreLabel_def)
  have total: "getScoreLabel score \<in> {''Excellent'', ''Good'', ''Fair'', ''Needs Improvement''}"
    by (simp add: getScoreLabel_def)
  from shown missing labels total show ?thesis by blast
qed

theorem missing_score_and_labels_witness:
  "assessment unassessed = None
   \<and> InterviewResults False [] (Some unassessed)
       = ScoreCircle ''from-red-500 to-pink-500'' 0 ''Needs Improvement''
   \<and> candidate_score_percent (the (assessment unscored)) = None
   \<and> InterviewResults False [] (Some unscored)
       = ScoreCircle ''from-red-500 to-pink-500'' 0 ''Needs Improvement''
   \<and> getScoreLabel 85 = ''Excellent'' \<and> getScoreLabel 60 = ''Good''
   \<and> getScoreLabel 59 = ''Fair'' \<and> getScoreLabel 39 = ''Needs Improvement''"
  using missing_score_and_labels [of unassessed 85] missing_score_and_labels [of unscored 60]
        missing_score_and_labels [of unscored 59] missing_score_and_labels [of unscored 39]
  by (simp add: unassessed_def unscored_def getScoreColor_def)


section \<open>The voice page\<close>

text \<open>Once initialized, the page shows the error panel exactly when the hook reports an error,
  and the completion panel exactly when it reports no error and a complete interview; the
  redirect to the results is scheduled only for a complete interview with an assessment.\<close>

lemma VoiceInterviewPage_panels:
  "(VoiceInterviewPage False h = ConnectionError e \<longleftrightarrow> truthy (hook_error h) = Some e)
   \<and> (VoiceInterviewPage False h = InterviewComplete (hook_assessment h)
        \<longleftrightarrow> truthy (hook_error h) = None \<and> isComplete h)
   \<and> (VoiceInterviewPage False h = LiveInterview
        \<longleftrightarrow> truthy (hook_error h) = None \<and> \<not> isComplete h)
   \<and> (redirect_scheduled h \<longrightarrow> isComplete h)"
  by (auto simp: VoiceInterviewPage_def redirect_scheduled_def split: option.splits)

section \<open>The orchestrator\<close>

lemma question_indices_append:
  "question_indices (xs @ ys) = question_indices xs @ question_indices ys"
  by (induction xs rule: question_indices.induct) simp_all

lemma assessments_append: "assessments (xs @ ys) = assessments xs @ assessments ys"
  by (induction xs rule: assessments.induct) simp_all

lemma errors_append: "errors (xs @ ys) = errors xs @ errors ys"
  by (induction xs rule: errors.induct) simp_all

lemma run_Cons:
  "run s (e # es) = (fst (run (fst (step s e)) es), snd (step s e) @ snd (run (fst (step s e)) es))"
  by (simp add: case_prod_beta)



text \<open>One step emits either no question, or the question whose number follows the last.\<close>

lemma step_questions:
  "question_indices (snd (step s e))
     = [Suc (questionIndex s) ..< Suc (questionIndex (fst (step s e)))]
   \<and> questionIndex s \<le> questionIndex (fst (step s e))"
  by (cases e) (simp_all add: Let_def)

lemma run_questions:
  "question_indices (snd (run s es))
     = [Suc (questionIndex s) ..< Suc (questionIndex (fst (run s es)))]
   \<and> questionIndex s \<le> questionIndex (fst (run s es))"
proof (induction es arbitrary: s)
  case Nil
  show ?case by simp
next
  case (Cons e es)
  let ?s1 = "fst (step s e)"
  let ?s2 = "fst (run ?s1 es)"
  from step_questions [of s e]
  have a: "question_indices (snd (step s e)) = [Suc (questionIndex s) ..< Suc (questionIndex ?s1)]"
    and b: "questionIndex s \<le> questionIndex ?s1" by simp_all
  from Cons.IH [of ?s1]
  have c: "question_indices (snd (run ?s1 es))
             = [Suc (questionIndex ?s1) ..< Suc (questionIndex ?s2)]"
    and d: "questionIndex ?s1 \<le> questionIndex ?s2" by simp_all
  have "[Suc (questionIndex s) ..< Suc (questionIndex ?s1)]
          @ [Suc (questionIndex ?s1) ..< Suc (questionIndex ?s2)]
        = [Suc (questionIndex s) ..< Suc (questionIndex ?s2)]"
    using b d by (metis Suc_le_mono upt_add_eq_append le_Suc_ex)
  with a b c d show ?case
    by (simp add: run_Cons question_indices_append del: run.simps(2))
qed




text \<open>A terminal session discards every event.\<close>

lemma step_terminal: "terminal (state s) \<Longrightarrow> step s e = (s, [])"
  by (cases e) (auto simp: terminal_def)

lemma run_terminal: "terminal (state s) \<Longrightarrow> run s es = (s, [])"
  by (induction es) (simp_all add: step_terminal)

text \<open>A step from a live session either stays live and emits neither an assessment nor an
  error, or completes with one assessment, or fails with one error.\<close>

lemma step_outcome:
  "\<not> terminal (state s) \<Longrightarrow>
     (\<not> terminal (state (fst (step s e)))
        \<and> assessments (snd (step s e)) = [] \<and> errors (snd (step s e)) = [])
   \<or> (state (fst (step s e)) = Completed
        \<and> length (assessments (snd (step s e))) = 1 \<and> errors (snd (step s e)) = [])
   \<or> (state (fst (step s e)) = Failed
        \<and> length (errors (snd (step s e))) = 1 \<and> assessments (snd (step s e)) = [])"
  by (cases e) (auto simp: terminal_def Let_def)

lemma run_outcome:
  "\<not> terminal (state s) \<Longrightarrow>
     (\<not> terminal (state (fst (run s es)))
        \<and> assessments (snd (run s es)) = [] \<and> errors (snd (run s es)) = [])
   \<or> (state (fst (run s es)) = Completed
        \<and> length (assessments (snd (run s es))) = 1 \<and> errors (snd (run s es)) = [])
   \<or> (state (fst (run s es)) = Failed
        \<and> length (errors (snd (run s es))) = 1 \<and> assessments (snd (run s es)) = [])"
proof (induction es arbitrary: s)
  case Nil
  then show ?case by simp
next
  case (Cons e es)
  let ?s1 = "fst (step s e)"
  show ?case
  proof (cases "terminal (state ?s1)")
    case True
    then have r: "run ?s1 es = (?s1, [])" by (rule run_terminal)
    from step_outcome [OF Cons.prems, of e] True r show ?thesis
      by (simp add: run_Cons del: run.simps(2))
  next
    case False
    with step_outcome [OF Cons.prems, of e]
    have quiet: "assessments (snd (step s e)) = []" "errors (snd (step s e)) = []"
      by (auto simp: terminal_def)
    from Cons.IH [OF False] quiet show ?thesis
      by (simp add: run_Cons assessments_append errors_append del: run.simps(2))
  qed
qed

lemma run_example:
  "run (new_session config_example) events_example =
     (\<lparr>state = Completed, questionIndex = 2, config = config_example,
       pendingQuestion = ''q2'', pendingAnswer = ''a2'',
       exchangeLog = [\<lparr>questionText = ''q1'', answerText = ''a1''\<rparr>,
                      \<lparr>questionText = ''q2'', answerText = ''a2''\<rparr>]\<rparr>,
      [Status ''priming'', Question 1 ''q1'', Status ''listening'', Status ''AnswerTooShort'',
       Status ''evaluating'', Question 2 ''q2'', Status ''listening'', Status ''evaluating'',
       Status ''closing'', Assessment ''good''])"
  by (simp add: new_session_def events_example_def config_example_def terminal_def)

text \<open>
  Claim C2.  In every session, whatever events arrive, the question events carry the numbers
  1, 2, ..., up to the session's \<open>questionIndex\<close>, in this order: each number is one more than
  the one before, none is missing and none comes twice.  On its side the page keeps as the
  current question number exactly the number that comes with the next question.
\<close>

theorem question_numbers_consecutive:
  "question_indices (snd (run (new_session cfg) events))
     = [1 ..< Suc (questionIndex (fst (run (new_session cfg) events)))]
   \<and> (\<not> send_blocked p
        \<and> submitAnswer (sessionId p) (currentQuestionNumber p) (trim (input p)) = Inr r
        \<and> truthy (nextQuestion r) = Some q
      \<longrightarrow> currentQuestionNumber (fst (handleSend submitAnswer p)) = nextQuestionNumber r)"
  using run_questions [of "new_session cfg" events]
  by (simp add: new_session_def handleSend_next_question)

theorem question_numbers_consecutive_witness:
  "question_indices (snd (run (new_session config_example) events_example)) = [1, 2]
   \<and> \<not> send_blocked page_example
   \<and> asking_server (sessionId page_example) (currentQuestionNumber page_example)
        (trim (input page_example))
       = Inr \<lparr>nextQuestion = Some ''Why compilers?'', nextQuestionNumber = 2,
              closingMessage = None, message = None\<rparr>
   \<and> currentQuestionNumber (fst (handleSend asking_server page_example)) = 2"
proof -
  have served: "asking_server (sessionId page_example) (currentQuestionNumber page_example)
        (trim (input page_example))
       = Inr \<lparr>nextQuestion = Some ''Why compilers?'', nextQuestionNumber = 2,
              closingMessage = None, message = None\<rparr>"
    by (simp add: asking_server_def page_example_def)
  from question_numbers_consecutive [of config_example events_example page_example asking_server
         "\<lparr>nextQuestion = Some ''Why compilers?'', nextQuestionNumber = 2,
           closingMessage = None, message = None\<rparr>" "''Why compilers?''"]
       page_example_free served
  show ?thesis by (simp add: run_example upt_rec truthy_def)
qed



text \<open>
  Claim C5.  Over the whole life of a session, whatever events arrive, at most one assessment
  or error event is emitted, never both and never a second one.  The session is \<open>Completed\<close>
  exactly when one assessment and no error has been emitted, and \<open>Failed\<close> exactly when one
  error and no assessment has been emitted; so a session is in a terminal state exactly when
  its one terminal event has been emitted, and that state is \<open>Completed\<close> or \<open>Failed\<close>.
\<close>

theorem one_terminal_event:
  "length (assessments (snd (run (new_session cfg) events)))
     + length (errors (snd (run (new_session cfg) events))) \<le> 1
   \<and> (state (fst (run (new_session cfg) events)) = Completed
        \<longleftrightarrow> length (assessments (snd (run (new_session cfg) events))) = 1
            \<and> errors (snd (run (new_session cfg) events)) = [])
   \<and> (state (fst (run (new_session cfg) events)) = Failed
        \<longleftrightarrow> length (errors (snd (run (new_session cfg) events))) = 1
            \<and> assessments (snd (run (new_session cfg) events)) = [])
   \<and> (terminal (state (fst (run (new_session cfg) events)))
        \<longleftrightarrow> length (assessments (snd (run (new_session cfg) events)))
            + length (errors (snd (run (new_session cfg) events))) = 1)"
proof -
  have "\<not> terminal (state (new_session cfg))"
    by (simp add: new_session_def terminal_def)
  from run_outcome [OF this, of events] show ?thesis
    by (auto simp: terminal_def)
qed

theorem one_terminal_event_witness:
  "state (fst (run (new_session config_example) events_example)) = Completed
   \<and> assessments (snd (run (new_session config_example) events_example)) = [''good'']
   \<and> errors (snd (run (new_session config_example) events_example)) = []"
  using one_terminal_event [of config_example events_example]
  by (simp add: run_example)

section \<open>The ingestion buffer\<close>

text \<open>
  Claim C6.  \<open>submit\<close> fails with \<open>OutOfOrder\<close> if and only if the sequence number is not the
  one the buffer expects next for that session.  A rejected chunk leaves the buffer as it was,
  the expected number included; an accepted chunk moves the expected number on by one.
\<close>

theorem out_of_order_rejected:
  "(fst (submit b sid seq bytes) = Some OutOfOrder \<longleftrightarrow> seq \<noteq> expected_next b sid)
   \<and> (seq \<noteq> expected_next b sid \<longrightarrow>
        snd (submit b sid seq bytes) = b
        \<and> expected_next (snd (submit b sid seq bytes)) sid' = expected_next b sid')
   \<and> (seq = expected_next b sid \<longrightarrow>
        fst (submit b sid seq bytes) = None
        \<and> expected_next (snd (submit b sid seq bytes)) sid = seq + 1
        \<and> forwarded (snd (submit b sid seq bytes)) = forwarded b @ [(sid, bytes)])"
proof (cases "seq = expected_next b sid")
  case True
  then have "submit b sid seq bytes =
      (None, b\<lparr>expected := (expected b)(sid \<mapsto> seq + 1),
                forwarded := forwarded b @ [(sid, bytes)]\<rparr>)"
    by (simp add: submit_def)
  with True show ?thesis by (simp add: expected_next_def)
next
  case False
  then have "submit b sid seq bytes = (Some OutOfOrder, b)"
    by (simp add: submit_def)
  with False show ?thesis by simp
qed

theorem out_of_order_rejected_witness:
  "5 \<noteq> expected_next ingestion_example ''s-1''
   \<and> submit ingestion_example ''s-1'' 5 ''xyz'' = (Some OutOfOrder, ingestion_example)
   \<and> 3 = expected_next ingestion_example ''s-1''
   \<and> fst (submit ingestion_example ''s-1'' 3 ''xyz'') = None
   \<and> expected_next (snd (submit ingestion_example ''s-1'' 3 ''xyz'')) ''s-1'' = 4"
proof -
  have e: "expected_next ingestion_example ''s-1'' = 3"
    by (simp add: expected_next_def ingestion_example_def)
  from out_of_order_rejected [of ingestion_example "''s-1''" 5 "''xyz''" "''s-1''"]
       out_of_order_rejected [of ingestion_example "''s-1''" 3 "''xyz''" "''s-1''"]
  show ?thesis by (simp add: e prod_eq_iff)
qed

end
